theory Spec2Isabelle
  imports Main "HOL-Library.Sublist"
begin

section \<open>The FreelanceEscrow contract (contracts/freelance\_escrow.py)\<close>

subsection \<open>State variables\<close>

text \<open>
  An \<open>Address\<close> is modelled by the string it is built from; \<open>Address("")\<close>, the value the
  constructor and \<open>withdraw_as_freelancer\<close> store in \<open>freelancer\<close>, is the empty string.
  The \<open>u256\<close> fields hold Python integers; no operation of the contract subtracts below
  zero or relies on wrap-around, so they are \<open>int\<close>. The status is the string the code
  stores.
\<close>

type_synonym address = string

definition empty_address :: address where
  "empty_address = ''''"

record job =
  client :: address
  freelancer :: address
  job_title :: string
  requirements :: string
  payment_amount :: int
  submission_url :: string
  status :: string
  created_at :: int
  deadline :: int
  evaluation_result :: string

subsection \<open>The environment of one call\<close>

text \<open>
  \<open>gl.get_webpage\<close> either returns the page text or raises; the exception is kept with
  its \<open>str(e)\<close>. \<open>gl.call_llm\<close> returns text. \<open>gl.transfer\<close> either moves the
  funds or raises; \<open>transfer_ok\<close> says which, for the call at hand. These three are the
  collaborators of the contract and are parameters of every call, together with
  \<open>gl.message.sender\<close>, \<open>gl.message.value\<close> and \<open>gl.block.timestamp\<close>.
  \<open>str_upper\<close> is \<open>str.upper\<close> of the Python runtime: its Unicode case table is not
  part of the repository (it sends letters beyond ASCII to ASCII ones, the dotless i to
  \<open>I\<close> and the long s to \<open>S\<close>), so it is a parameter as well, and what is proved of
  the verdict holds for every such function.
\<close>

datatype fetch_result = Fetched string | FetchFailed string

record env =
  sender :: address
  msg_value :: int
  timestamp :: int
  get_webpage :: "string \<Rightarrow> fetch_result"
  call_llm :: "string \<Rightarrow> string"
  transfer_ok :: "address \<Rightarrow> int \<Rightarrow> bool"
  str_upper :: "string \<Rightarrow> string"

text \<open>
  A failed \<open>assert\<close> raises \<open>AssertionError\<close> with its message; an exception of
  \<open>gl.transfer\<close> is not caught anywhere and leaves the method as it is.
\<close>

datatype error = AssertionError string | TransferError

text \<open>What a method returns: \<open>None\<close>, or the dictionary of \<open>evaluate_and_release\<close>.\<close>

datatype retval = PyNone | PyDict "(string \<times> string) list"

text \<open>The calls a method makes to its collaborators, in the order it makes them.\<close>

datatype event =
    Fetch string
  | Judge string
  | Transfer address int bool

text \<open>
  A method mutates \<open>self\<close> in place. Its outcome is the value or exception it leaves
  with, the fields of \<open>self\<close> as they are at that moment, and the calls it made.
\<close>

record outcome =
  returned :: "error + retval"
  self :: job
  effects :: "event list"

definition raise :: "error \<Rightarrow> job \<Rightarrow> event list \<Rightarrow> outcome" where
  "raise err j evs = \<lparr>returned = Inl err, self = j, effects = evs\<rparr>"

definition return :: "retval \<Rightarrow> job \<Rightarrow> event list \<Rightarrow> outcome" where
  "return v j evs = \<lparr>returned = Inr v, self = j, effects = evs\<rparr>"

subsection \<open>Constructor\<close>

definition init :: "env \<Rightarrow> string \<Rightarrow> string \<Rightarrow> int \<Rightarrow> error + job" where
  "init e title reqs deadline_hours =
     (if \<not> length title > 0 then Inl (AssertionError ''Job title required'')
      else if \<not> length reqs > 0 then Inl (AssertionError ''Requirements required'')
      else if \<not> deadline_hours > 0 then Inl (AssertionError ''Deadline must be in the future'')
      else if \<not> msg_value e > 0 then Inl (AssertionError ''Must include payment'')
      else Inr \<lparr>client = sender e,
                freelancer = empty_address,
                job_title = title,
                requirements = reqs,
                payment_amount = msg_value e,
                submission_url = '''',
                status = ''open'',
                created_at = timestamp e,
                deadline = timestamp e + deadline_hours * 3600,
                evaluation_result = ''''\<rparr>)"

subsection \<open>Freelancer actions\<close>

definition accept_job :: "env \<Rightarrow> job \<Rightarrow> outcome" where
  "accept_job e j =
     (if status j \<noteq> ''open'' then raise (AssertionError ''Job not available'') j []
      else if \<not> sender e \<noteq> client j then
        raise (AssertionError ''Client cannot accept own job'') j []
      else return PyNone (j\<lparr>freelancer := sender e, status := ''in_progress''\<rparr>) [])"

definition submit_work :: "env \<Rightarrow> string \<Rightarrow> job \<Rightarrow> outcome" where
  "submit_work e url j =
     (if status j \<noteq> ''in_progress'' then raise (AssertionError ''Job not in progress'') j []
      else if sender e \<noteq> freelancer j then
        raise (AssertionError ''Only assigned freelancer can submit'') j []
      else if \<not> length url > 0 then raise (AssertionError ''URL cannot be empty'') j []
      else return PyNone (j\<lparr>submission_url := url, status := ''submitted''\<rparr>) [])"

subsection \<open>Evaluation\<close>

text \<open>
  \<open>str.upper\<close> on ASCII text: the letters \<open>a\<close> to \<open>z\<close> move to \<open>A\<close> to \<open>Z\<close>, every
  other character stays. It is the \<open>str_upper\<close> of the test environments below, whose
  texts are ASCII.
\<close>

definition upper_char :: "char \<Rightarrow> char" where
  "upper_char c =
     (let n = of_char c :: nat in if 97 \<le> n \<and> n \<le> 122 then char_of (n - 32) else c)"

definition ascii_upper :: "string \<Rightarrow> string" where
  "ascii_upper s = map upper_char s"

text \<open>Python's \<open>sub in s\<close> on strings: \<open>sub\<close> occurs in \<open>s\<close> as a contiguous piece.\<close>

fun str_contains :: "string \<Rightarrow> string \<Rightarrow> bool" where
  "str_contains sub [] = (sub = [])"
| "str_contains sub (c # cs) = (prefix sub (c # cs) \<or> str_contains sub cs)"

text \<open>
  Step 4 of \<open>evaluate_and_release\<close>: the verdict read from the response, with
  \<open>upper\<close> for \<open>str.upper\<close>.
\<close>

definition parse_verdict :: "(string \<Rightarrow> string) \<Rightarrow> string \<Rightarrow> string" where
  "parse_verdict upper ai_response =
     (let response_upper = upper ai_response in
      if str_contains ''VERDICT: APPROVED'' response_upper
         \<or> str_contains ''VERDICT:APPROVED'' response_upper then ''APPROVED''
      else if str_contains ''VERDICT: REJECTED'' response_upper
         \<or> str_contains ''VERDICT:REJECTED'' response_upper then ''REJECTED''
      else ''REJECTED'')"

text \<open>Step 2: the prompt, line by line as the f-string has it.\<close>

definition unlines :: "string list \<Rightarrow> string" where
  "unlines ls = concat (map (\<lambda>l. l @ [CHR 0x0A]) ls)"

definition evaluation_prompt :: "job \<Rightarrow> string \<Rightarrow> string" where
  "evaluation_prompt j submission_content = unlines
     [''You are an impartial evaluator for a freelance job submission.'',
      '''',
      ''## JOB DETAILS'',
      '''',
      ''**Title:** '' @ job_title j,
      '''',
      ''**Requirements:**'',
      requirements j,
      '''',
      ''## SUBMISSION'',
      '''',
      ''**URL:** '' @ submission_url j,
      '''',
      ''**Content Preview:**'',
      take 4000 submission_content,
      '''',
      ''## YOUR TASK'',
      '''',
      ''Evaluate whether this submission meets the stated requirements.'',
      '''',
      ''Consider:'',
      ''1. Does it address ALL stated requirements?'',
      ''2. Is the implementation functional and reasonable?'',
      ''3. Are there critical missing pieces that would make it unusable?'',
      '''',
      ''Be fair but strict. The freelancer was paid to deliver what was asked.'',
      '''',
      ''## REQUIRED RESPONSE FORMAT'',
      '''',
      ''You MUST respond in exactly this format:'',
      '''',
      ''VERDICT: [APPROVED or REJECTED]'',
      ''CONFIDENCE: [HIGH, MEDIUM, or LOW]'',
      ''SUMMARY: [One sentence summary of your decision]'',
      ''DETAILS: [2-3 sentences explaining your reasoning]'',
      '''',
      ''Example:'',
      ''VERDICT: APPROVED'',
      ''CONFIDENCE: HIGH'',
      ''SUMMARY: The submission meets all stated requirements.'',
      ''DETAILS: The code includes user authentication, analytics charts, and responsive design as requested. Dark mode is implemented via a toggle in the header. Code quality is acceptable.'']"

definition evaluate_and_release :: "env \<Rightarrow> job \<Rightarrow> outcome" where
  "evaluate_and_release e j =
     (if status j \<noteq> ''submitted'' then raise (AssertionError ''No submission to evaluate'') j []
      else
        case get_webpage e (submission_url j) of
          FetchFailed detail \<Rightarrow>
            (let j1 = j\<lparr>evaluation_result :=
                         ''REJECTED: Could not access submission URL. Error: '' @ detail\<rparr>;
                 ok = transfer_ok e (client j1) (payment_amount j1);
                 evs = [Fetch (submission_url j), Transfer (client j1) (payment_amount j1) ok]
             in if \<not> ok then raise TransferError j1 evs
                else return (PyDict [(''verdict'', ''REJECTED''), (''reason'', ''URL inaccessible'')])
                       (j1\<lparr>status := ''refunded''\<rparr>) evs)
        | Fetched submission_content \<Rightarrow>
            (let prompt = evaluation_prompt j submission_content;
                 ai_response = call_llm e prompt;
                 verdict = parse_verdict (str_upper e) ai_response;
                 j1 = j\<lparr>evaluation_result := ai_response\<rparr>;
                 payee = (if verdict = ''APPROVED'' then freelancer j1 else client j1);
                 ok = transfer_ok e payee (payment_amount j1);
                 evs = [Fetch (submission_url j), Judge prompt,
                        Transfer payee (payment_amount j1) ok]
             in if \<not> ok then raise TransferError j1 evs
                else return (PyDict [(''verdict'', verdict), (''evaluation'', ai_response)])
                       (j1\<lparr>status := (if verdict = ''APPROVED'' then ''completed''
                                       else ''refunded'')\<rparr>) evs))"

subsection \<open>Safety mechanisms\<close>

definition cancel_job :: "env \<Rightarrow> job \<Rightarrow> outcome" where
  "cancel_job e j =
     (if status j \<noteq> ''open'' then raise (AssertionError ''Can only cancel open jobs'') j []
      else if sender e \<noteq> client j then raise (AssertionError ''Only client can cancel'') j []
      else
        (let ok = transfer_ok e (client j) (payment_amount j);
             evs = [Transfer (client j) (payment_amount j) ok]
         in if \<not> ok then raise TransferError j evs
            else return PyNone (j\<lparr>status := ''refunded''\<rparr>) evs))"

definition claim_deadline_refund :: "env \<Rightarrow> job \<Rightarrow> outcome" where
  "claim_deadline_refund e j =
     (if \<not> timestamp e > deadline j then raise (AssertionError ''Deadline not yet passed'') j []
      else if status j \<notin> set [''open'', ''in_progress''] then
        raise (AssertionError ''Invalid status for deadline refund'') j []
      else if sender e \<noteq> client j then
        raise (AssertionError ''Only client can claim deadline refund'') j []
      else
        (let ok = transfer_ok e (client j) (payment_amount j);
             evs = [Transfer (client j) (payment_amount j) ok]
         in if \<not> ok then raise TransferError j evs
            else return PyNone (j\<lparr>status := ''refunded''\<rparr>) evs))"

definition withdraw_as_freelancer :: "env \<Rightarrow> job \<Rightarrow> outcome" where
  "withdraw_as_freelancer e j =
     (if status j \<noteq> ''in_progress'' then
        raise (AssertionError ''Can only withdraw from in-progress jobs'') j []
      else if sender e \<noteq> freelancer j then
        raise (AssertionError ''Only assigned freelancer can withdraw'') j []
      else return PyNone (j\<lparr>freelancer := empty_address, status := ''open''\<rparr>) [])"

subsection \<open>View methods\<close>

definition get_status :: "job \<Rightarrow> string" where
  "get_status j = status j"

definition get_evaluation :: "job \<Rightarrow> string" where
  "get_evaluation j = evaluation_result j"

definition is_deadline_passed :: "env \<Rightarrow> job \<Rightarrow> bool" where
  "is_deadline_passed e j = (timestamp e > deadline j)"

definition time_remaining :: "env \<Rightarrow> job \<Rightarrow> int" where
  "time_remaining e j = (if timestamp e \<ge> deadline j then 0 else deadline j - timestamp e)"

subsection \<open>The public write methods as one transition function\<close>

datatype operation =
    AcceptJob
  | SubmitWork string
  | EvaluateAndRelease
  | CancelJob
  | ClaimDeadlineRefund
  | WithdrawAsFreelancer

fun call :: "env \<Rightarrow> operation \<Rightarrow> job \<Rightarrow> outcome" where
  "call e AcceptJob j = accept_job e j"
| "call e (SubmitWork url) j = submit_work e url j"
| "call e EvaluateAndRelease j = evaluate_and_release e j"
| "call e CancelJob j = cancel_job e j"
| "call e ClaimDeadlineRefund j = claim_deadline_refund e j"
| "call e WithdrawAsFreelancer j = withdraw_as_freelancer e j"

text \<open>
  A sequence of calls, each in its own environment. A call that raises leaves the fields
  as they are at the raise, and the next call starts from them. \<open>run\<close> is the job at
  the end, \<open>trace\<close> the calls to the collaborators over the whole sequence.
\<close>

fun run :: "(env \<times> operation) list \<Rightarrow> job \<Rightarrow> job" where
  "run [] j = j"
| "run (c # cs) j = run cs (self (call (fst c) (snd c) j))"

fun trace :: "(env \<times> operation) list \<Rightarrow> job \<Rightarrow> event list" where
  "trace [] j = []"
| "trace (c # cs) j =
     effects (call (fst c) (snd c) j) @ trace cs (self (call (fst c) (snd c) j))"

fun is_transfer :: "event \<Rightarrow> bool" where
  "is_transfer (Transfer to amount ok) = True"
| "is_transfer ev = False"

fun moved_funds :: "event \<Rightarrow> bool" where
  "moved_funds (Transfer to amount ok) = ok"
| "moved_funds ev = False"

fun is_judge :: "event \<Rightarrow> bool" where
  "is_judge (Judge prompt) = True"
| "is_judge ev = False"

definition terminal :: "job \<Rightarrow> bool" where
  "terminal j = (status j = ''completed'' \<or> status j = ''refunded'')"

subsection \<open>Notions of the specification\<close>

text \<open>
  Modelled from the spec: the verdict equivalence rule of section 4.3. The contract gives
  it to \<open>gl.equivalence_principle\<close> as a sentence for the validators and has no code for
  it. Two judgment texts are equivalent iff the verdicts extracted from them, by the
  extraction of \<open>evaluate_and_release\<close>, are equal; \<open>upper\<close> is the \<open>str.upper\<close>
  of that extraction.
\<close>

definition equivalent :: "(string \<Rightarrow> string) \<Rightarrow> string \<Rightarrow> string \<Rightarrow> bool" where
  "equivalent upper a b = (parse_verdict upper a = parse_verdict upper b)"

text \<open>
  The place of the first occurrence of \<open>sub\<close> in \<open>s\<close> (Python's \<open>s.find(sub)\<close>, with
  \<open>None\<close> for \<open>-1\<close>), to say which of two markers comes first in a text.
\<close>

fun str_find :: "string \<Rightarrow> string \<Rightarrow> nat option" where
  "str_find sub [] = (if sub = [] then Some 0 else None)"
| "str_find sub (c # cs) =
     (if prefix sub (c # cs) then Some 0 else map_option Suc (str_find sub cs))"

text \<open>
  The extraction as the design notes of the specification describe it, "first unambiguous
  match wins": the verdict of the marker whose first occurrence stands earliest in the
  uppercased text, and \<open>REJECTED\<close> when there is no approval marker. It is here only
  to be compared with \<open>parse_verdict\<close>.
\<close>

definition earliest :: "nat option \<Rightarrow> nat option \<Rightarrow> nat option" where
  "earliest a b =
     (case a of
        None \<Rightarrow> b
      | Some i \<Rightarrow> (case b of None \<Rightarrow> Some i | Some k \<Rightarrow> Some (min i k)))"

definition first_match_verdict :: "(string \<Rightarrow> string) \<Rightarrow> string \<Rightarrow> string" where
  "first_match_verdict upper r =
     (let u = upper r;
          a = earliest (str_find ''VERDICT: APPROVED'' u) (str_find ''VERDICT:APPROVED'' u);
          b = earliest (str_find ''VERDICT: REJECTED'' u) (str_find ''VERDICT:REJECTED'' u)
      in case a of
           None \<Rightarrow> ''REJECTED''
         | Some i \<Rightarrow>
             (case b of
                None \<Rightarrow> ''APPROVED''
              | Some k \<Rightarrow> if i < k then ''APPROVED'' else ''REJECTED''))"

subsection \<open>The jobs and accounts of test/test\_freelance\_escrow.py\<close>

definition default_account :: address where
  "default_account = ''account_0''"

definition account_1 :: address where
  "account_1 = ''account_1''"

definition account_2 :: address where
  "account_2 = ''account_2''"

text \<open>
  A transaction of account \<open>a\<close> at time \<open>t\<close>, in a world where the page is there, the
  judge approves and the gateway pays; the functions below change one of the three.
\<close>

definition tx :: "address \<Rightarrow> int \<Rightarrow> env" where
  "tx a t = \<lparr>sender = a, msg_value = 0, timestamp = t,
             get_webpage = (\<lambda>url. Fetched ''<html>Landing page</html>''),
             call_llm = (\<lambda>prompt. ''VERDICT: APPROVED''),
             transfer_ok = (\<lambda>to amount. True),
             str_upper = ascii_upper\<rparr>"

definition with_value :: "int \<Rightarrow> env \<Rightarrow> env" where
  "with_value v e = e\<lparr>msg_value := v\<rparr>"

definition judge_says :: "string \<Rightarrow> env \<Rightarrow> env" where
  "judge_says r e = e\<lparr>call_llm := (\<lambda>prompt. r)\<rparr>"

definition page_fails :: "string \<Rightarrow> env \<Rightarrow> env" where
  "page_fails detail e = e\<lparr>get_webpage := (\<lambda>url. FetchFailed detail)\<rparr>"

definition gateway_fails :: "env \<Rightarrow> env" where
  "gateway_fails e = e\<lparr>transfer_ok := (\<lambda>to amount. False)\<rparr>"

text \<open>\<open>deploy_escrow\<close> of the tests, deployed by the default account at time 1000.\<close>

definition deploy_escrow :: "error + job" where
  "deploy_escrow =
     init (with_value 1000000 (tx default_account 1000)) ''Build a Landing Page''
       ''Create a responsive landing page with hero section, features grid, and contact form''
       72"

definition open_job :: job where
  "open_job = \<lparr>client = default_account,
                freelancer = empty_address,
                job_title = ''Build a Landing Page'',
                requirements =
                  ''Create a responsive landing page with hero section, features grid, and contact form'',
                payment_amount = 1000000,
                submission_url = '''',
                status = ''open'',
                created_at = 1000,
                deadline = 260200,
                evaluation_result = ''''\<rparr>"

text \<open>The job after \<open>accept_job\<close> by account 1, and after its \<open>submit_work\<close>.\<close>

definition accepted_job :: job where
  "accepted_job = open_job\<lparr>freelancer := account_1, status := ''in_progress''\<rparr>"

definition submitted_job :: job where
  "submitted_job =
     accepted_job\<lparr>submission_url := ''https://github.com/example/landing-page'',
                  status := ''submitted''\<rparr>"

definition completed_job :: job where
  "completed_job =
     submitted_job\<lparr>evaluation_result := ''VERDICT: APPROVED'', status := ''completed''\<rparr>"

text \<open>
  Scenario A of the specification (accept, submit, evaluate with an approving judge),
  followed by a second \<open>evaluate_and_release\<close>.
\<close>

definition scenario_a :: "(env \<times> operation) list" where
  "scenario_a =
     [(tx account_1 2000, AcceptJob),
      (tx account_1 3000, SubmitWork ''https://github.com/example/landing-page''),
      (tx account_2 4000, EvaluateAndRelease),
      (tx account_2 5000, EvaluateAndRelease)]"

text \<open>The client cancels while the gateway is down, and again when it is up.\<close>

definition cancel_twice :: "(env \<times> operation) list" where
  "cancel_twice =
     [(gateway_fails (tx default_account 2000), CancelJob),
      (tx default_account 3000, CancelJob)]"

text \<open>The client cancels the open job.\<close>

definition cancel_before_accept :: "(env \<times> operation) list" where
  "cancel_before_accept = [(tx default_account 2000, CancelJob)]"

text \<open>Account 1 accepts and withdraws (\<open>test_freelancer_withdraw\<close>).\<close>

definition accept_then_withdraw :: "(env \<times> operation) list" where
  "accept_then_withdraw =
     [(tx account_1 2000, AcceptJob), (tx account_1 3000, WithdrawAsFreelancer)]"

text \<open>A judgment that rejects and then quotes the example of the prompt.\<close>

definition conflicting_judgment :: string where
  "conflicting_judgment = ''VERDICT: REJECTED. Example: VERDICT: APPROVED''"

text \<open>A caller whose address is the empty address accepts the open job.\<close>

definition accept_by_empty_address :: "(env \<times> operation) list" where
  "accept_by_empty_address = [(tx empty_address 2000, AcceptJob)]"

section \<open>Properties\<close>

subsection \<open>Helper facts\<close>

lemmas method_defs =
  accept_job_def submit_work_def evaluate_and_release_def cancel_job_def
  claim_deadline_refund_def withdraw_as_freelancer_def raise_def return_def

lemmas fixture_defs =
  tx_def with_value_def judge_says_def page_fails_def gateway_fails_def
  open_job_def accepted_job_def submitted_job_def
  default_account_def account_1_def account_2_def empty_address_def

text \<open>\<open>str_contains\<close> is the contiguous-sublist relation of the library.\<close>

lemma str_contains_sublist: "str_contains sub s = sublist sub s"
  by (induction s) (simp_all add: sublist_Cons_right)

lemma str_find_None: "str_find sub s = None \<longleftrightarrow> \<not> str_contains sub s"
  by (induction s) auto

lemma parse_verdict_cases:
  "parse_verdict upper r = ''APPROVED'' \<or> parse_verdict upper r = ''REJECTED''"
  by (simp add: parse_verdict_def Let_def)

lemma deploy_escrow_open: "deploy_escrow = Inr open_job"
  by (simp add: deploy_escrow_def init_def fixture_defs)

lemma call_terminal:
  assumes "terminal j"
  shows "\<exists>msg. call e op j = raise (AssertionError msg) j []"
  using assms by (cases op) (auto simp: terminal_def method_defs)

lemma run_terminal: "terminal j \<Longrightarrow> run cs j = j"
proof (induction cs)
  case Nil
  show ?case by simp
next
  case (Cons c cs)
  from call_terminal [OF Cons.prems] obtain msg
    where "call (fst c) (snd c) j = raise (AssertionError msg) j []" by blast
  with Cons show ?case by (simp add: raise_def)
qed

lemma trace_terminal: "terminal j \<Longrightarrow> trace cs j = []"
proof (induction cs)
  case Nil
  show ?case by simp
next
  case (Cons c cs)
  from call_terminal [OF Cons.prems] obtain msg
    where "call (fst c) (snd c) j = raise (AssertionError msg) j []" by blast
  with Cons show ?case by (simp add: raise_def)
qed

text \<open>What one call does to the gateway.\<close>

lemma call_moved_funds:
  assumes "moved_funds ev" and "ev \<in> set (effects (call e op j))"
  shows "\<not> terminal j \<and> terminal (self (call e op j))
    \<and> filter is_transfer (effects (call e op j)) = [ev]
    \<and> last (effects (call e op j)) = ev
    \<and> (\<exists>to. ev = Transfer to (payment_amount j) True)
    \<and> (\<exists>v. returned (call e op j) = Inr v)"
  using assms parse_verdict_cases
  by (cases op)
     (auto simp: terminal_def method_defs Let_def split: if_splits fetch_result.splits)

lemma call_funds_cases:
  "filter moved_funds (effects (call e op j)) = []
   \<or> terminal (self (call e op j)) \<and> length (filter moved_funds (effects (call e op j))) = 1"
  by (cases op)
     (auto simp: terminal_def method_defs Let_def split: if_splits fetch_result.splits)

lemma trace_moved_funds: "length (filter moved_funds (trace cs j)) \<le> 1"
proof (induction cs arbitrary: j)
  case Nil
  show ?case by simp
next
  case (Cons c cs)
  let ?o = "call (fst c) (snd c) j"
  from call_funds_cases [of "fst c" "snd c" j] show ?case
  proof
    assume "filter moved_funds (effects ?o) = []"
    with Cons.IH [of "self ?o"] show ?thesis by simp
  next
    assume "terminal (self ?o) \<and> length (filter moved_funds (effects ?o)) = 1"
    then show ?thesis by (simp add: trace_terminal)
  qed
qed

subsection \<open>Disbursement\<close>

text \<open>
  The claim C1 as it is written fails where a transfer raises: \<open>cancel_job\<close> leaves the
  job open, the client calls it again, and the gateway has been invoked twice on one job,
  the first time in a call that entered no terminal state.
\<close>

theorem gateway_invoked_twice_counterexample:
  "deploy_escrow = Inr open_job
   \<and> trace cancel_twice open_job
       = [Transfer default_account 1000000 False, Transfer default_account 1000000 True]
   \<and> length (filter is_transfer (trace cancel_twice open_job)) = 2
   \<and> status (self (call (gateway_fails (tx default_account 2000)) CancelJob open_job)) = ''open''"
  by (simp add: deploy_escrow_def init_def method_defs fixture_defs cancel_twice_def)

text \<open>
  C1, amended. Over any sequence of calls on a job the gateway moves the funds at most
  once. A transfer that moves funds is the only transfer of its call and the last thing
  the call does, it is of the full \<open>payment_amount\<close>, and the call takes the job from
  a non-terminal status into \<open>completed\<close> or \<open>refunded\<close>. Once the job is terminal,
  \<open>evaluate_and_release\<close> fails its assertion and no call invokes the gateway again.
  When no transfer of the sequence fails, the gateway is invoked at most once.
\<close>

theorem funds_move_at_most_once:
  "length (filter moved_funds (trace cs j)) \<le> 1
   \<and> (moved_funds ev \<and> ev \<in> set (effects (call e op j)) \<longrightarrow>
        \<not> terminal j \<and> terminal (self (call e op j))
        \<and> filter is_transfer (effects (call e op j)) = [ev]
        \<and> last (effects (call e op j)) = ev
        \<and> (\<exists>to. ev = Transfer to (payment_amount j) True))
   \<and> (terminal jt \<longrightarrow>
        evaluate_and_release e jt = raise (AssertionError ''No submission to evaluate'') jt []
        \<and> trace cs jt = [])
   \<and> ((\<forall>ev \<in> set (trace cs j). is_transfer ev \<longrightarrow> moved_funds ev) \<longrightarrow>
        length (filter is_transfer (trace cs j)) \<le> 1)"
proof -
  have a: "length (filter moved_funds (trace cs j)) \<le> 1"
    by (rule trace_moved_funds)
  have b: "moved_funds ev \<and> ev \<in> set (effects (call e op j)) \<longrightarrow>
        \<not> terminal j \<and> terminal (self (call e op j))
        \<and> filter is_transfer (effects (call e op j)) = [ev]
        \<and> last (effects (call e op j)) = ev
        \<and> (\<exists>to. ev = Transfer to (payment_amount j) True)"
    using call_moved_funds [of ev e op j] by blast
  have c: "terminal jt \<longrightarrow>
        evaluate_and_release e jt = raise (AssertionError ''No submission to evaluate'') jt []
        \<and> trace cs jt = []"
    by (auto simp: trace_terminal terminal_def evaluate_and_release_def)
  have d: "(\<forall>ev \<in> set (trace cs j). is_transfer ev \<longrightarrow> moved_funds ev) \<longrightarrow>
        length (filter is_transfer (trace cs j)) \<le> 1"
  proof
    assume h: "\<forall>ev \<in> set (trace cs j). is_transfer ev \<longrightarrow> moved_funds ev"
    have "moved_funds x \<Longrightarrow> is_transfer x" for x by (cases x) simp_all
    with h have "filter is_transfer (trace cs j) = filter moved_funds (trace cs j)"
      by (intro filter_cong) auto
    with a show "length (filter is_transfer (trace cs j)) \<le> 1" by simp
  qed
  from a b c d show ?thesis by blast
qed

text \<open>
  Scenario A: the one transfer is the 1000000 to account 1, in the call that completes
  the job; the second \<open>evaluate_and_release\<close> fails its assertion.
\<close>

lemma parse_verdict_fixture: "parse_verdict ascii_upper ''VERDICT: APPROVED'' = ''APPROVED''"
  by (simp add: parse_verdict_def ascii_upper_def upper_char_def)

lemma evaluate_submitted_job:
  "evaluate_and_release (tx account_2 4000) submitted_job
   = return (PyDict [(''verdict'', ''APPROVED''), (''evaluation'', ''VERDICT: APPROVED'')])
       completed_job
       [Fetch ''https://github.com/example/landing-page'',
        Judge (evaluation_prompt submitted_job ''<html>Landing page</html>''),
        Transfer account_1 1000000 True]"
  by (simp add: evaluate_and_release_def return_def raise_def parse_verdict_fixture tx_def
      Let_def completed_job_def submitted_job_def accepted_job_def open_job_def)

lemma scenario_a_trace:
  "trace scenario_a open_job
   = [Fetch ''https://github.com/example/landing-page'',
      Judge (evaluation_prompt submitted_job ''<html>Landing page</html>''),
      Transfer account_1 1000000 True]"
  by (simp add: scenario_a_def method_defs parse_verdict_fixture Let_def fixture_defs)

theorem funds_move_at_most_once_witness:
  "moved_funds (Transfer account_1 1000000 True)
   \<and> Transfer account_1 1000000 True
        \<in> set (effects (call (tx account_2 4000) EvaluateAndRelease submitted_job))
   \<and> \<not> terminal submitted_job
   \<and> self (call (tx account_2 4000) EvaluateAndRelease submitted_job) = completed_job
   \<and> terminal completed_job
   \<and> returned (evaluate_and_release (tx account_2 5000) completed_job)
       = Inl (AssertionError ''No submission to evaluate'')
   \<and> trace scenario_a open_job
       = [Fetch ''https://github.com/example/landing-page'',
          Judge (evaluation_prompt submitted_job ''<html>Landing page</html>''),
          Transfer account_1 1000000 True]
   \<and> length (filter is_transfer (trace scenario_a open_job)) \<le> 1"
proof -
  let ?ev = "Transfer account_1 1000000 True"
  let ?o = "call (tx account_2 4000) EvaluateAndRelease submitted_job"
  have h1: "moved_funds ?ev \<and> ?ev \<in> set (effects ?o)"
    by (simp add: evaluate_submitted_job return_def)
  have h2: "\<forall>ev \<in> set (trace scenario_a open_job). is_transfer ev \<longrightarrow> moved_funds ev"
    unfolding scenario_a_trace by simp
  have s: "self ?o = completed_job"
    by (simp add: evaluate_submitted_job return_def)
  from h1 funds_move_at_most_once
    [of scenario_a submitted_job ?ev "tx account_2 4000" EvaluateAndRelease completed_job]
  have t: "\<not> terminal submitted_job \<and> terminal (self ?o)" by blast
  with s funds_move_at_most_once
    [of scenario_a open_job ?ev "tx account_2 5000" EvaluateAndRelease completed_job]
  have r: "evaluate_and_release (tx account_2 5000) completed_job
        = raise (AssertionError ''No submission to evaluate'') completed_job []"
    by simp
  from h2 funds_move_at_most_once
    [of scenario_a open_job ?ev "tx account_2 4000" EvaluateAndRelease completed_job]
  have n: "length (filter is_transfer (trace scenario_a open_job)) \<le> 1" by blast
  from r have "returned (evaluate_and_release (tx account_2 5000) completed_job)
       = Inl (AssertionError ''No submission to evaluate'')"
    by (simp add: raise_def)
  with h1 t s n scenario_a_trace show ?thesis by simp
qed

subsection \<open>Terminal states\<close>

text \<open>
  C3. \<open>completed\<close> and \<open>refunded\<close> are terminal: on a job in one of them each of
  \<open>accept_job\<close>, \<open>submit_work\<close>, \<open>withdraw_as_freelancer\<close>, \<open>cancel_job\<close>,
  \<open>claim_deadline_refund\<close> and \<open>evaluate_and_release\<close> fails an assertion, in any
  environment, changes no field and calls no collaborator; so no sequence of calls changes
  the status again.
\<close>

theorem terminal_states_are_final:
  assumes "status j = ''completed'' \<or> status j = ''refunded''"
  shows "(\<exists>msg. returned (call e op j) = Inl (AssertionError msg))
    \<and> self (call e op j) = j
    \<and> effects (call e op j) = []
    \<and> run cs j = j
    \<and> status (run cs j) = status j"
proof -
  from assms have t: "terminal j" by (simp add: terminal_def)
  from call_terminal [OF t] obtain msg
    where "call e op j = raise (AssertionError msg) j []" by blast
  then show ?thesis using run_terminal [OF t] by (simp add: raise_def)
qed

theorem terminal_states_are_final_witness:
  "(status (submitted_job\<lparr>status := ''refunded''\<rparr>) = ''completed''
      \<or> status (submitted_job\<lparr>status := ''refunded''\<rparr>) = ''refunded'')
   \<and> returned (call (tx default_account 300000) ClaimDeadlineRefund
        (submitted_job\<lparr>status := ''refunded''\<rparr>))
       = Inl (AssertionError ''Invalid status for deadline refund'')
   \<and> run [(tx account_1 2000, WithdrawAsFreelancer), (tx account_2 3000, EvaluateAndRelease)]
        (submitted_job\<lparr>status := ''refunded''\<rparr>)
       = submitted_job\<lparr>status := ''refunded''\<rparr>"
  using terminal_states_are_final
    [of "submitted_job\<lparr>status := ''refunded''\<rparr>" "tx default_account 300000"
        ClaimDeadlineRefund
        "[(tx account_1 2000, WithdrawAsFreelancer), (tx account_2 3000, EvaluateAndRelease)]"]
  by (simp add: method_defs fixture_defs)

subsection \<open>The verdict equivalence rule\<close>

text \<open>
  C8. The verdict equivalence rule is symmetric and reflexive: \<open>equivalent a b\<close> is
  \<open>equivalent b a\<close> for all texts, and every text is equivalent to itself, whatever
  function stands for \<open>str.upper\<close> in the extraction.
\<close>

theorem equivalent_symmetric_reflexive:
  "equivalent upper a b = equivalent upper b a \<and> equivalent upper a a"
  by (auto simp: equivalent_def)

subsection \<open>The deadline views\<close>

text \<open>
  C9. \<open>time_remaining\<close> is \<open>max(0, deadline - now)\<close>; it is never negative, it is 0
  once the deadline is reached, it does not grow as the clock advances and it strictly
  decreases while it is positive. \<open>is_deadline_passed\<close> is true exactly when
  \<open>now > deadline\<close>. Here \<open>e\<close> and \<open>e'\<close> are two readings of the clock.
\<close>

theorem time_remaining_monotone:
  "time_remaining e j = max 0 (deadline j - timestamp e)
   \<and> 0 \<le> time_remaining e j
   \<and> (deadline j \<le> timestamp e \<longrightarrow> time_remaining e j = 0)
   \<and> (timestamp e \<le> timestamp e' \<longrightarrow> time_remaining e' j \<le> time_remaining e j)
   \<and> (timestamp e < timestamp e' \<and> 0 < time_remaining e j
        \<longrightarrow> time_remaining e' j < time_remaining e j)
   \<and> (is_deadline_passed e j \<longleftrightarrow> timestamp e > deadline j)"
  by (simp add: time_remaining_def is_deadline_passed_def)

theorem time_remaining_monotone_witness:
  "timestamp (tx account_1 2000) < timestamp (tx account_1 2600)
   \<and> 0 < time_remaining (tx account_1 2000) open_job
   \<and> time_remaining (tx account_1 2000) open_job = 258200
   \<and> time_remaining (tx account_1 2600) open_job = 257600
   \<and> time_remaining (tx account_1 2600) open_job < time_remaining (tx account_1 2000) open_job
   \<and> deadline open_job \<le> timestamp (tx account_1 260200)
   \<and> time_remaining (tx account_1 260200) open_job = 0
   \<and> \<not> is_deadline_passed (tx account_1 260200) open_job"
  using time_remaining_monotone [of "tx account_1 2000" open_job "tx account_1 2600"]
    time_remaining_monotone [of "tx account_1 260200" open_job "tx account_1 260200"]
  by (simp add: time_remaining_def is_deadline_passed_def fixture_defs)

subsection \<open>Acceptance and submission after the deadline\<close>

text \<open>
  C10. Neither \<open>accept_job\<close> nor \<open>submit_work\<close> looks at the clock: at any block
  timestamp \<open>t\<close>, also one after the deadline, \<open>accept_job\<close> on an open job succeeds for
  every caller other than the client, and \<open>submit_work\<close> with a non-empty URL on a job
  in progress succeeds for the assigned freelancer. The deadline counts only through
  \<open>claim_deadline_refund\<close>: once the client has called it after the deadline, and the
  transfer has returned, the job is \<open>refunded\<close> and both methods fail.
\<close>

theorem accept_and_submit_ignore_deadline:
  "(status j = ''open'' \<and> sender e \<noteq> client j \<longrightarrow>
      accept_job (e\<lparr>timestamp := t\<rparr>) j
        = return PyNone (j\<lparr>freelancer := sender e, status := ''in_progress''\<rparr>) [])
   \<and> (status j = ''in_progress'' \<and> sender e = freelancer j \<and> url \<noteq> [] \<longrightarrow>
      submit_work (e\<lparr>timestamp := t\<rparr>) url j
        = return PyNone (j\<lparr>submission_url := url, status := ''submitted''\<rparr>) [])
   \<and> ((status j = ''open'' \<or> status j = ''in_progress'') \<and> deadline j < timestamp e
        \<and> sender e = client j \<and> transfer_ok e (client j) (payment_amount j) \<longrightarrow>
      self (claim_deadline_refund e j) = j\<lparr>status := ''refunded''\<rparr>
      \<and> accept_job e' (j\<lparr>status := ''refunded''\<rparr>)
        = raise (AssertionError ''Job not available'') (j\<lparr>status := ''refunded''\<rparr>) []
      \<and> submit_work e' url (j\<lparr>status := ''refunded''\<rparr>)
        = raise (AssertionError ''Job not in progress'') (j\<lparr>status := ''refunded''\<rparr>) [])"
  by (auto simp: accept_job_def submit_work_def claim_deadline_refund_def return_def raise_def)

theorem accept_and_submit_ignore_deadline_witness:
  "status open_job = ''open'' \<and> sender (tx account_1 0) \<noteq> client open_job
   \<and> deadline open_job < 999999
   \<and> returned (accept_job ((tx account_1 0)\<lparr>timestamp := 999999\<rparr>) open_job) = Inr PyNone
   \<and> self (accept_job ((tx account_1 0)\<lparr>timestamp := 999999\<rparr>) open_job) = accepted_job
   \<and> status accepted_job = ''in_progress'' \<and> sender (tx account_1 0) = freelancer accepted_job
   \<and> ''https://github.com/example/landing-page'' \<noteq> []
   \<and> self (submit_work ((tx account_1 0)\<lparr>timestamp := 999999\<rparr>)
        ''https://github.com/example/landing-page'' accepted_job) = submitted_job
   \<and> deadline open_job < timestamp (tx default_account 999999)
   \<and> sender (tx default_account 999999) = client open_job
   \<and> transfer_ok (tx default_account 999999) (client open_job) (payment_amount open_job)
   \<and> status (self (claim_deadline_refund (tx default_account 999999) open_job)) = ''refunded''
   \<and> returned (accept_job (tx account_1 999999) (open_job\<lparr>status := ''refunded''\<rparr>))
       = Inl (AssertionError ''Job not available'')"
  using accept_and_submit_ignore_deadline [of open_job "tx account_1 0" 999999]
    accept_and_submit_ignore_deadline
      [of accepted_job "tx account_1 0" 999999 "''https://github.com/example/landing-page''"]
    accept_and_submit_ignore_deadline
      [of open_job "tx default_account 999999" 0 "''x''" "tx account_1 999999"]
  by (simp add: return_def raise_def fixture_defs)

subsection \<open>A submission that cannot be fetched\<close>

text \<open>
  The claim C4 as it is written fails where the transfer raises: the page cannot be
  fetched, the refund to the client fails, and \<open>evaluate_and_release\<close> leaves with the
  exception of the transfer, the status still \<open>submitted\<close> and no dictionary returned.
\<close>

theorem unreachable_submission_counterexample:
  "status submitted_job = ''submitted''
   \<and> get_webpage (gateway_fails (page_fails ''HTTP 404'' (tx account_2 4000)))
        (submission_url submitted_job) = FetchFailed ''HTTP 404''
   \<and> returned (evaluate_and_release (gateway_fails (page_fails ''HTTP 404'' (tx account_2 4000)))
        submitted_job) = Inl TransferError
   \<and> status (self (evaluate_and_release
        (gateway_fails (page_fails ''HTTP 404'' (tx account_2 4000))) submitted_job))
       = ''submitted''
   \<and> effects (evaluate_and_release (gateway_fails (page_fails ''HTTP 404'' (tx account_2 4000)))
        submitted_job)
       = [Fetch ''https://github.com/example/landing-page'',
          Transfer default_account 1000000 False]"
  by (simp add: evaluate_and_release_def raise_def return_def Let_def gateway_fails_def
      page_fails_def tx_def submitted_job_def accepted_job_def open_job_def)

text \<open>
  C4, amended. On a submitted job whose \<open>submission_url\<close> cannot be fetched,
  \<open>evaluate_and_release\<close> makes two calls, the fetch and the transfer of the full
  amount to the client, and none to the judge; it stores
  \<open>REJECTED: Could not access submission URL. Error: \<close> followed by the detail in
  \<open>evaluation_result\<close>. When the transfer succeeds it sets the status to
  \<open>refunded\<close> and returns \<open>{verdict: REJECTED, reason: URL inaccessible}\<close>, every
  other field staying as it was. When the transfer raises, the call fails with that
  exception and the status is still \<open>submitted\<close>.
\<close>

theorem unreachable_submission_is_refunded:
  assumes "status j = ''submitted''"
    and "get_webpage e (submission_url j) = FetchFailed detail"
  shows "effects (evaluate_and_release e j)
      = [Fetch (submission_url j),
         Transfer (client j) (payment_amount j) (transfer_ok e (client j) (payment_amount j))]
    \<and> filter is_judge (effects (evaluate_and_release e j)) = []
    \<and> evaluation_result (self (evaluate_and_release e j))
      = ''REJECTED: Could not access submission URL. Error: '' @ detail
    \<and> (transfer_ok e (client j) (payment_amount j) \<longrightarrow>
        returned (evaluate_and_release e j)
          = Inr (PyDict [(''verdict'', ''REJECTED''), (''reason'', ''URL inaccessible'')])
        \<and> self (evaluate_and_release e j)
          = j\<lparr>status := ''refunded'',
               evaluation_result :=
                 ''REJECTED: Could not access submission URL. Error: '' @ detail\<rparr>)
    \<and> (\<not> transfer_ok e (client j) (payment_amount j) \<longrightarrow>
        returned (evaluate_and_release e j) = Inl TransferError
        \<and> self (evaluate_and_release e j)
          = j\<lparr>evaluation_result :=
                 ''REJECTED: Could not access submission URL. Error: '' @ detail\<rparr>
        \<and> status (self (evaluate_and_release e j)) = ''submitted'')"
  using assms by (simp add: evaluate_and_release_def raise_def return_def Let_def)

theorem unreachable_submission_is_refunded_witness:
  "status submitted_job = ''submitted''
   \<and> get_webpage (page_fails ''HTTP 404'' (tx account_2 4000)) (submission_url submitted_job)
       = FetchFailed ''HTTP 404''
   \<and> transfer_ok (page_fails ''HTTP 404'' (tx account_2 4000)) (client submitted_job)
        (payment_amount submitted_job)
   \<and> effects (evaluate_and_release (page_fails ''HTTP 404'' (tx account_2 4000)) submitted_job)
       = [Fetch ''https://github.com/example/landing-page'',
          Transfer default_account 1000000 True]
   \<and> returned (evaluate_and_release (page_fails ''HTTP 404'' (tx account_2 4000)) submitted_job)
       = Inr (PyDict [(''verdict'', ''REJECTED''), (''reason'', ''URL inaccessible'')])
   \<and> status (self (evaluate_and_release (page_fails ''HTTP 404'' (tx account_2 4000))
        submitted_job)) = ''refunded''
   \<and> evaluation_result (self (evaluate_and_release (page_fails ''HTTP 404'' (tx account_2 4000))
        submitted_job)) = ''REJECTED: Could not access submission URL. Error: HTTP 404''
   \<and> get_webpage (gateway_fails (page_fails ''HTTP 404'' (tx account_2 4000)))
        (submission_url submitted_job) = FetchFailed ''HTTP 404''
   \<and> \<not> transfer_ok (gateway_fails (page_fails ''HTTP 404'' (tx account_2 4000)))
        (client submitted_job) (payment_amount submitted_job)
   \<and> returned (evaluate_and_release (gateway_fails (page_fails ''HTTP 404'' (tx account_2 4000)))
        submitted_job) = Inl TransferError"
proof -
  let ?e = "page_fails ''HTTP 404'' (tx account_2 4000)"
  let ?f = "gateway_fails ?e"
  have h1: "status submitted_job = ''submitted''"
    by (simp add: submitted_job_def)
  have h2: "get_webpage ?e (submission_url submitted_job) = FetchFailed ''HTTP 404''"
    by (simp add: page_fails_def)
  have h3: "transfer_ok ?e (client submitted_job) (payment_amount submitted_job)"
    by (simp add: page_fails_def tx_def)
  have g2: "get_webpage ?f (submission_url submitted_job) = FetchFailed ''HTTP 404''"
    by (simp add: page_fails_def gateway_fails_def)
  have g3: "\<not> transfer_ok ?f (client submitted_job) (payment_amount submitted_job)"
    by (simp add: gateway_fails_def)
  have f: "client submitted_job = default_account" "payment_amount submitted_job = 1000000"
    "submission_url submitted_job = ''https://github.com/example/landing-page''"
    by (simp_all add: submitted_job_def accepted_job_def open_job_def)
  from unreachable_submission_is_refunded [OF h1 h2]
    unreachable_submission_is_refunded [OF h1 g2] h1 h2 h3 g2 g3 f
  show ?thesis by simp
qed

subsection \<open>Default deny\<close>

text \<open>
  The claim C2 as it is written fails in two ways. It names one approval marker,
  \<open>VERDICT: APPROVED\<close>, and the code has a second, without the space: the judgment
  \<open>VERDICT:APPROVED\<close> does not contain the first and completes the job, with the
  payment to the freelancer. And a judgment with no marker does not end in \<open>refunded\<close>
  when the refund raises: the call fails and the status is still \<open>submitted\<close>.
\<close>

theorem default_deny_counterexample:
  "str_upper (judge_says ''VERDICT:APPROVED'' (tx account_2 4000)) ''VERDICT:APPROVED''
     = ''VERDICT:APPROVED''
   \<and> \<not> str_contains ''VERDICT: APPROVED'' ''VERDICT:APPROVED''
   \<and> call_llm (judge_says ''VERDICT:APPROVED'' (tx account_2 4000))
        (evaluation_prompt submitted_job ''<html>Landing page</html>'') = ''VERDICT:APPROVED''
   \<and> status (self (evaluate_and_release (judge_says ''VERDICT:APPROVED'' (tx account_2 4000))
        submitted_job)) = ''completed''
   \<and> freelancer submitted_job = account_1
   \<and> last (effects (evaluate_and_release (judge_says ''VERDICT:APPROVED'' (tx account_2 4000))
        submitted_job)) = Transfer account_1 1000000 True
   \<and> str_upper (gateway_fails (judge_says ''No verdict.'' (tx account_2 4000))) ''No verdict.''
     = ''NO VERDICT.''
   \<and> \<not> str_contains ''VERDICT: APPROVED'' ''NO VERDICT.''
   \<and> \<not> str_contains ''VERDICT:APPROVED'' ''NO VERDICT.''
   \<and> call_llm (gateway_fails (judge_says ''No verdict.'' (tx account_2 4000)))
        (evaluation_prompt submitted_job ''<html>Landing page</html>'') = ''No verdict.''
   \<and> returned (evaluate_and_release (gateway_fails (judge_says ''No verdict.''
        (tx account_2 4000))) submitted_job) = Inl TransferError
   \<and> status (self (evaluate_and_release (gateway_fails (judge_says ''No verdict.''
        (tx account_2 4000))) submitted_job)) = ''submitted''"
proof -
  have u: "ascii_upper ''VERDICT:APPROVED'' = ''VERDICT:APPROVED''"
    by (simp add: ascii_upper_def upper_char_def)
  have p: "parse_verdict ascii_upper ''VERDICT:APPROVED'' = ''APPROVED''"
    by (simp add: parse_verdict_def u)
  have v: "ascii_upper ''No verdict.'' = ''NO VERDICT.''"
    by code_simp
  have q: "parse_verdict ascii_upper ''No verdict.'' = ''REJECTED''"
    by (simp add: parse_verdict_def v)
  have a: "status (self (evaluate_and_release (judge_says ''VERDICT:APPROVED''
        (tx account_2 4000)) submitted_job)) = ''completed''"
    "last (effects (evaluate_and_release (judge_says ''VERDICT:APPROVED'' (tx account_2 4000))
        submitted_job)) = Transfer account_1 1000000 True"
    by (simp_all add: p evaluate_and_release_def return_def raise_def Let_def judge_says_def
        tx_def submitted_job_def accepted_job_def open_job_def)
  have b: "returned (evaluate_and_release (gateway_fails (judge_says ''No verdict.''
        (tx account_2 4000))) submitted_job) = Inl TransferError"
    "status (self (evaluate_and_release (gateway_fails (judge_says ''No verdict.''
        (tx account_2 4000))) submitted_job)) = ''submitted''"
    by (simp_all add: q evaluate_and_release_def return_def raise_def Let_def judge_says_def
        gateway_fails_def tx_def submitted_job_def accepted_job_def open_job_def)
  have c: "freelancer submitted_job = account_1"
    by (simp add: submitted_job_def accepted_job_def)
  from u v a b c show ?thesis
    by (simp add: judge_says_def gateway_fails_def tx_def)
qed

text \<open>
  C2, amended. When the judgment, put to upper case by \<open>str.upper\<close>, contains neither
  \<open>VERDICT: APPROVED\<close> nor \<open>VERDICT:APPROVED\<close>, the extracted verdict is
  \<open>REJECTED\<close>; the one transfer of \<open>evaluate_and_release\<close> is of the full amount to
  the client; the job does not become \<open>completed\<close>. When the transfer succeeds the job
  is \<open>refunded\<close> and the call returns the verdict \<open>REJECTED\<close> with the judgment; when
  it raises, the call fails with that exception and the job is still \<open>submitted\<close>.
\<close>

theorem default_deny:
  assumes "status j = ''submitted''"
    and "get_webpage e (submission_url j) = Fetched content"
    and "call_llm e (evaluation_prompt j content) = r"
    and "\<not> str_contains ''VERDICT: APPROVED'' (str_upper e r)"
    and "\<not> str_contains ''VERDICT:APPROVED'' (str_upper e r)"
  shows "parse_verdict (str_upper e) r = ''REJECTED''
    \<and> filter is_transfer (effects (evaluate_and_release e j))
      = [Transfer (client j) (payment_amount j) (transfer_ok e (client j) (payment_amount j))]
    \<and> status (self (evaluate_and_release e j)) \<noteq> ''completed''
    \<and> (transfer_ok e (client j) (payment_amount j) \<longrightarrow>
        status (self (evaluate_and_release e j)) = ''refunded''
        \<and> returned (evaluate_and_release e j)
          = Inr (PyDict [(''verdict'', ''REJECTED''), (''evaluation'', r)]))
    \<and> (\<not> transfer_ok e (client j) (payment_amount j) \<longrightarrow>
        status (self (evaluate_and_release e j)) = ''submitted''
        \<and> returned (evaluate_and_release e j) = Inl TransferError)"
proof -
  from assms(4,5) have v: "parse_verdict (str_upper e) r = ''REJECTED''"
    by (simp add: parse_verdict_def Let_def)
  with assms(1-3) show ?thesis
    by (simp add: evaluate_and_release_def raise_def return_def Let_def)
qed

theorem default_deny_witness:
  "status submitted_job = ''submitted''
   \<and> get_webpage (judge_says ''Looks approved to me.'' (tx account_2 4000))
        (submission_url submitted_job) = Fetched ''<html>Landing page</html>''
   \<and> call_llm (judge_says ''Looks approved to me.'' (tx account_2 4000))
        (evaluation_prompt submitted_job ''<html>Landing page</html>'') = ''Looks approved to me.''
   \<and> str_upper (judge_says ''Looks approved to me.'' (tx account_2 4000))
        ''Looks approved to me.'' = ''LOOKS APPROVED TO ME.''
   \<and> \<not> str_contains ''VERDICT: APPROVED'' ''LOOKS APPROVED TO ME.''
   \<and> \<not> str_contains ''VERDICT:APPROVED'' ''LOOKS APPROVED TO ME.''
   \<and> transfer_ok (judge_says ''Looks approved to me.'' (tx account_2 4000))
        (client submitted_job) (payment_amount submitted_job)
   \<and> parse_verdict (str_upper (judge_says ''Looks approved to me.'' (tx account_2 4000)))
        ''Looks approved to me.'' = ''REJECTED''
   \<and> status (self (evaluate_and_release (judge_says ''Looks approved to me.''
        (tx account_2 4000)) submitted_job)) = ''refunded''
   \<and> filter is_transfer (effects (evaluate_and_release (judge_says ''Looks approved to me.''
        (tx account_2 4000)) submitted_job)) = [Transfer default_account 1000000 True]
   \<and> \<not> transfer_ok (gateway_fails (judge_says ''Looks approved to me.'' (tx account_2 4000)))
        (client submitted_job) (payment_amount submitted_job)
   \<and> status (self (evaluate_and_release (gateway_fails (judge_says ''Looks approved to me.''
        (tx account_2 4000))) submitted_job)) = ''submitted''"
proof -
  let ?e = "judge_says ''Looks approved to me.'' (tx account_2 4000)"
  let ?f = "gateway_fails ?e"
  have h1: "status submitted_job = ''submitted''"
    by (simp add: submitted_job_def)
  have h2: "get_webpage ?e (submission_url submitted_job) = Fetched ''<html>Landing page</html>''"
    "get_webpage ?f (submission_url submitted_job) = Fetched ''<html>Landing page</html>''"
    by (simp_all add: judge_says_def gateway_fails_def tx_def)
  have h3: "call_llm ?e (evaluation_prompt submitted_job ''<html>Landing page</html>'')
      = ''Looks approved to me.''"
    "call_llm ?f (evaluation_prompt submitted_job ''<html>Landing page</html>'')
      = ''Looks approved to me.''"
    by (simp_all add: judge_says_def gateway_fails_def)
  have a: "ascii_upper ''Looks approved to me.'' = ''LOOKS APPROVED TO ME.''"
    by code_simp
  have u: "str_upper ?e ''Looks approved to me.'' = ''LOOKS APPROVED TO ME.''"
    "str_upper ?f ''Looks approved to me.'' = ''LOOKS APPROVED TO ME.''"
    by (simp_all add: judge_says_def gateway_fails_def tx_def a)
  have h4: "\<not> str_contains ''VERDICT: APPROVED'' (str_upper ?e ''Looks approved to me.'')"
    "\<not> str_contains ''VERDICT: APPROVED'' (str_upper ?f ''Looks approved to me.'')"
    unfolding u by simp_all
  have h5: "\<not> str_contains ''VERDICT:APPROVED'' (str_upper ?e ''Looks approved to me.'')"
    "\<not> str_contains ''VERDICT:APPROVED'' (str_upper ?f ''Looks approved to me.'')"
    unfolding u by simp_all
  have h6: "transfer_ok ?e (client submitted_job) (payment_amount submitted_job)"
    "\<not> transfer_ok ?f (client submitted_job) (payment_amount submitted_job)"
    by (simp_all add: judge_says_def gateway_fails_def tx_def)
  have f: "client submitted_job = default_account" "payment_amount submitted_job = 1000000"
    by (simp_all add: submitted_job_def accepted_job_def open_job_def)
  from default_deny [OF h1 h2(1) h3(1) h4(1) h5(1)] default_deny [OF h1 h2(2) h3(2) h4(2) h5(2)]
    h1 h2 h3 h4 h5 h6 u f
  show ?thesis by simp
qed

subsection \<open>Conflicting markers\<close>

lemma upper_conflicting_judgment:
  "ascii_upper conflicting_judgment = ''VERDICT: REJECTED. EXAMPLE: VERDICT: APPROVED''"
  by code_simp

text \<open>
  The claim C6 as it is written fails: in \<open>conflicting_judgment\<close> the rejection marker
  stands first, at place 0, and the approval marker at place 28, so the first match is a
  rejection; the code approves.
\<close>

theorem first_match_counterexample:
  "str_find ''VERDICT: REJECTED'' (ascii_upper conflicting_judgment) = Some 0
   \<and> str_find ''VERDICT: APPROVED'' (ascii_upper conflicting_judgment) = Some 28
   \<and> str_find ''VERDICT:APPROVED'' (ascii_upper conflicting_judgment) = None
   \<and> first_match_verdict ascii_upper conflicting_judgment = ''REJECTED''
   \<and> parse_verdict ascii_upper conflicting_judgment = ''APPROVED''"
  by (simp add: upper_conflicting_judgment parse_verdict_def first_match_verdict_def
      earliest_def Let_def)

text \<open>
  C6, amended. For every judgment text that contains both an approval marker and a
  rejection marker, the extracted verdict is \<open>APPROVED\<close>, wherever the two markers
  stand: the approval markers are looked for first, in the whole text. This holds for
  every function \<open>upper\<close> in the place of \<open>str.upper\<close>.
\<close>

theorem approval_marker_wins:
  assumes "str_contains ''VERDICT: APPROVED'' (upper r)
           \<or> str_contains ''VERDICT:APPROVED'' (upper r)"
    and "str_contains ''VERDICT: REJECTED'' (upper r)
           \<or> str_contains ''VERDICT:REJECTED'' (upper r)"
  shows "parse_verdict upper r = ''APPROVED''"
  using assms(1) by (simp add: parse_verdict_def Let_def)

theorem approval_marker_wins_witness:
  "str_contains ''VERDICT: APPROVED'' (ascii_upper conflicting_judgment)
   \<and> str_contains ''VERDICT: REJECTED'' (ascii_upper conflicting_judgment)
   \<and> parse_verdict ascii_upper conflicting_judgment = ''APPROVED''"
proof -
  have h1: "str_contains ''VERDICT: APPROVED'' (ascii_upper conflicting_judgment)"
    unfolding upper_conflicting_judgment by simp
  have h2: "str_contains ''VERDICT: REJECTED'' (ascii_upper conflicting_judgment)"
    unfolding upper_conflicting_judgment by simp
  from approval_marker_wins [of ascii_upper conflicting_judgment, OF disjI1 [OF h1] disjI1 [OF h2]]
    h1 h2 show ?thesis
    by simp
qed

subsection \<open>Calls that fail\<close>

lemma failed_evaluate_cases:
  assumes "returned (evaluate_and_release e j) = Inl err"
  shows "(\<exists>msg. err = AssertionError msg) \<and> evaluate_and_release e j = raise err j []
    \<or> err = TransferError
      \<and> (\<exists>r. self (evaluate_and_release e j) = j\<lparr>evaluation_result := r\<rparr>)"
proof (cases "status j = ''submitted''")
  case False
  with assms show ?thesis by (auto simp: evaluate_and_release_def raise_def)
next
  case True
  show ?thesis
  proof (cases "get_webpage e (submission_url j)")
    case (Fetched content)
    let ?r = "call_llm e (evaluation_prompt j content)"
    let ?payee = "if parse_verdict (str_upper e) ?r = ''APPROVED'' then freelancer j
      else client j"
    show ?thesis
    proof (cases "transfer_ok e ?payee (payment_amount j)")
      case True
      with \<open>status j = ''submitted''\<close> Fetched
      have "\<exists>v. returned (evaluate_and_release e j) = Inr v"
        by (simp add: evaluate_and_release_def return_def Let_def split: if_splits)
      with assms show ?thesis by simp
    next
      case False
      with \<open>status j = ''submitted''\<close> Fetched
      have "returned (evaluate_and_release e j) = Inl TransferError"
        and "self (evaluate_and_release e j) = j\<lparr>evaluation_result := ?r\<rparr>"
        by (simp_all add: evaluate_and_release_def raise_def Let_def split: if_splits)
      with assms show ?thesis by auto
    qed
  next
    case (FetchFailed detail)
    let ?r = "''REJECTED: Could not access submission URL. Error: '' @ detail"
    show ?thesis
    proof (cases "transfer_ok e (client j) (payment_amount j)")
      case True
      with \<open>status j = ''submitted''\<close> FetchFailed
      have "\<exists>v. returned (evaluate_and_release e j) = Inr v"
        by (simp add: evaluate_and_release_def return_def Let_def split: if_splits)
      with assms show ?thesis by simp
    next
      case False
      with \<open>status j = ''submitted''\<close> FetchFailed
      have "returned (evaluate_and_release e j) = Inl TransferError"
        and "self (evaluate_and_release e j) = j\<lparr>evaluation_result := ?r\<rparr>"
        by (simp_all add: evaluate_and_release_def raise_def Let_def split: if_splits)
      with assms show ?thesis by auto
    qed
  qed
qed

lemma failed_call_other:
  assumes "returned (call e op j) = Inl err" and "op \<noteq> EvaluateAndRelease"
  shows "self (call e op j) = j
    \<and> ((\<exists>msg. err = AssertionError msg) \<longrightarrow> effects (call e op j) = [])"
  using assms
  by (cases op)
     (auto simp: accept_job_def submit_work_def cancel_job_def claim_deadline_refund_def
        withdraw_as_freelancer_def raise_def return_def Let_def split: if_splits)

text \<open>
  The claim C5 as it is written fails in \<open>evaluate_and_release\<close>, which stores
  \<open>evaluation_result\<close> before it calls \<open>gl.transfer\<close>: when the transfer raises, the
  call fails and the judgment has replaced the empty \<open>evaluation_result\<close> of the job.
\<close>

theorem failed_transfer_counterexample:
  "returned (evaluate_and_release (gateway_fails (tx account_2 4000)) submitted_job)
     = Inl TransferError
   \<and> evaluation_result submitted_job = []
   \<and> evaluation_result
        (self (evaluate_and_release (gateway_fails (tx account_2 4000)) submitted_job))
       = ''VERDICT: APPROVED''
   \<and> self (evaluate_and_release (gateway_fails (tx account_2 4000)) submitted_job)
       \<noteq> submitted_job"
proof -
  have o: "evaluate_and_release (gateway_fails (tx account_2 4000)) submitted_job
      = raise TransferError (submitted_job\<lparr>evaluation_result := ''VERDICT: APPROVED''\<rparr>)
          [Fetch ''https://github.com/example/landing-page'',
           Judge (evaluation_prompt submitted_job ''<html>Landing page</html>''),
           Transfer account_1 1000000 False]"
    by (simp add: evaluate_and_release_def return_def raise_def parse_verdict_fixture
        gateway_fails_def tx_def Let_def submitted_job_def accepted_job_def open_job_def)
  have e: "evaluation_result submitted_job = []"
    by (simp add: submitted_job_def accepted_job_def open_job_def)
  have n: "submitted_job\<lparr>evaluation_result := ''VERDICT: APPROVED''\<rparr> \<noteq> submitted_job"
    by (simp add: submitted_job_def accepted_job_def open_job_def)
  from o e n show ?thesis by (simp add: raise_def)
qed

text \<open>
  C5, amended. A call that fails leaves the status and every field other than
  \<open>evaluation_result\<close> as they were. It leaves the whole job unchanged when the failure
  is a violated precondition, in which case it has also called no collaborator, and when
  the method is not \<open>evaluate_and_release\<close>. (In \<open>evaluate_and_release\<close> a transfer
  that raises comes after the write of \<open>evaluation_result\<close>.)
\<close>

theorem failed_call_keeps_job:
  assumes "returned (call e op j) = Inl err"
  shows "(self (call e op j))\<lparr>evaluation_result := evaluation_result j\<rparr> = j
    \<and> status (self (call e op j)) = status j
    \<and> ((\<exists>msg. err = AssertionError msg) \<longrightarrow>
         self (call e op j) = j \<and> effects (call e op j) = [])
    \<and> (op \<noteq> EvaluateAndRelease \<longrightarrow> self (call e op j) = j)"
proof (cases "op = EvaluateAndRelease")
  case False
  from failed_call_other [OF assms False] show ?thesis by simp
next
  case True
  with assms have "returned (evaluate_and_release e j) = Inl err" by simp
  from failed_evaluate_cases [OF this] show ?thesis
  proof
    assume "(\<exists>msg. err = AssertionError msg) \<and> evaluate_and_release e j = raise err j []"
    with True show ?thesis by (simp add: raise_def)
  next
    assume "err = TransferError
      \<and> (\<exists>r. self (evaluate_and_release e j) = j\<lparr>evaluation_result := r\<rparr>)"
    then obtain r where "err = TransferError"
      and "self (evaluate_and_release e j) = j\<lparr>evaluation_result := r\<rparr>" by blast
    with True show ?thesis by simp
  qed
qed

theorem failed_call_keeps_job_witness:
  "returned (call (tx default_account 2000) AcceptJob open_job)
     = Inl (AssertionError ''Client cannot accept own job'')
   \<and> self (call (tx default_account 2000) AcceptJob open_job) = open_job
   \<and> returned (call (gateway_fails (tx default_account 2000)) CancelJob open_job)
     = Inl TransferError
   \<and> CancelJob \<noteq> EvaluateAndRelease
   \<and> self (call (gateway_fails (tx default_account 2000)) CancelJob open_job) = open_job
   \<and> returned (call (gateway_fails (tx account_2 4000)) EvaluateAndRelease submitted_job)
     = Inl TransferError
   \<and> status (self (call (gateway_fails (tx account_2 4000)) EvaluateAndRelease submitted_job))
     = ''submitted''"
proof -
  have h1: "returned (call (tx default_account 2000) AcceptJob open_job)
      = Inl (AssertionError ''Client cannot accept own job'')"
    by (simp add: accept_job_def raise_def tx_def open_job_def)
  have h2: "returned (call (gateway_fails (tx default_account 2000)) CancelJob open_job)
      = Inl TransferError"
    by (simp add: cancel_job_def raise_def gateway_fails_def tx_def open_job_def)
  have h3: "returned (call (gateway_fails (tx account_2 4000)) EvaluateAndRelease submitted_job)
      = Inl TransferError"
    by (simp add: evaluate_and_release_def return_def raise_def parse_verdict_fixture
        gateway_fails_def tx_def Let_def submitted_job_def accepted_job_def open_job_def)
  have s: "status submitted_job = ''submitted''"
    by (simp add: submitted_job_def)
  from failed_call_keeps_job [OF h1] failed_call_keeps_job [OF h2]
    failed_call_keeps_job [OF h3] h1 h2 h3 s
  show ?thesis by simp
qed

subsection \<open>The freelancer field\<close>

lemma call_open_unset:
  assumes "status j = ''open'' \<longrightarrow> freelancer j = empty_address"
  shows "status (self (call e op j)) = ''open''
    \<longrightarrow> freelancer (self (call e op j)) = empty_address"
  using assms
  by (cases op)
     (auto simp: method_defs Let_def split: if_splits fetch_result.splits)

lemma run_open_unset:
  "status j = ''open'' \<longrightarrow> freelancer j = empty_address
   \<Longrightarrow> status (run cs j) = ''open'' \<longrightarrow> freelancer (run cs j) = empty_address"
proof (induction cs arbitrary: j)
  case Nil
  then show ?case by simp
next
  case (Cons c cs)
  from call_open_unset [OF Cons.prems, of "fst c" "snd c"]
  show ?case using Cons.IH [of "self (call (fst c) (snd c) j)"] by simp
qed

lemma call_unset_open:
  assumes "freelancer j = empty_address \<longrightarrow> status j = ''open'' \<or> status j = ''refunded''"
    and "sender e \<noteq> empty_address"
  shows "freelancer (self (call e op j)) = empty_address
    \<longrightarrow> status (self (call e op j)) = ''open'' \<or> status (self (call e op j)) = ''refunded''"
  using assms
  by (cases op)
     (auto simp: method_defs Let_def split: if_splits fetch_result.splits)

lemma run_unset_open:
  "freelancer j = empty_address \<longrightarrow> status j = ''open'' \<or> status j = ''refunded''
   \<Longrightarrow> \<forall>c \<in> set cs. sender (fst c) \<noteq> empty_address
   \<Longrightarrow> freelancer (run cs j) = empty_address
       \<longrightarrow> status (run cs j) = ''open'' \<or> status (run cs j) = ''refunded''"
proof (induction cs arbitrary: j)
  case Nil
  then show ?case by simp
next
  case (Cons c cs)
  from Cons.prems(2) have s: "sender (fst c) \<noteq> empty_address"
    and r: "\<forall>c \<in> set cs. sender (fst c) \<noteq> empty_address" by simp_all
  from call_unset_open [OF Cons.prems(1) s, of "snd c"] r
  show ?case using Cons.IH [of "self (call (fst c) (snd c) j)"] by simp
qed

lemma init_open_unset:
  "init e title reqs hours = Inr j \<Longrightarrow> status j = ''open'' \<and> freelancer j = empty_address"
  by (auto simp: init_def split: if_splits)

text \<open>
  The claim C7 as it is written fails in two ways. After \<open>cancel_job\<close> on the open job
  the status is \<open>refunded\<close> and the freelancer is still the empty address. And
  \<open>accept_job\<close> stores the caller whoever it is: when the caller is the empty address,
  the job is \<open>in_progress\<close> with the freelancer field unset.
\<close>

theorem cancelled_job_counterexample:
  "deploy_escrow = Inr open_job
   \<and> status (run cancel_before_accept open_job) = ''refunded''
   \<and> freelancer (run cancel_before_accept open_job) = empty_address
   \<and> status (run cancel_before_accept open_job) \<noteq> ''open''
   \<and> status (run accept_by_empty_address open_job) = ''in_progress''
   \<and> freelancer (run accept_by_empty_address open_job) = empty_address
   \<and> status (run accept_by_empty_address open_job) \<noteq> ''open''"
  by (simp add: deploy_escrow_def init_def cancel_before_accept_def accept_by_empty_address_def
      cancel_job_def accept_job_def return_def raise_def tx_def with_value_def open_job_def
      default_account_def empty_address_def)

text \<open>
  C7, amended. In every state reached from the constructor through the public methods, a
  job that is \<open>open\<close> has no freelancer; and, when no caller is the empty address, a job
  with no freelancer is \<open>open\<close> or \<open>refunded\<close>.
\<close>

theorem freelancer_unset_iff_open_or_refunded:
  assumes "init e0 title reqs hours = Inr j0"
  shows "(status (run cs j0) = ''open'' \<longrightarrow> freelancer (run cs j0) = empty_address)
    \<and> ((\<forall>c \<in> set cs. sender (fst c) \<noteq> empty_address) \<longrightarrow>
        (freelancer (run cs j0) = empty_address \<longrightarrow>
           status (run cs j0) = ''open'' \<or> status (run cs j0) = ''refunded''))"
proof -
  from init_open_unset [OF assms]
  have i: "status j0 = ''open''" "freelancer j0 = empty_address" by simp_all
  from i have a: "status (run cs j0) = ''open'' \<longrightarrow> freelancer (run cs j0) = empty_address"
    by (intro run_open_unset) simp
  from i have "\<forall>c \<in> set cs. sender (fst c) \<noteq> empty_address \<Longrightarrow>
      freelancer (run cs j0) = empty_address \<longrightarrow>
        status (run cs j0) = ''open'' \<or> status (run cs j0) = ''refunded''"
    by (intro run_unset_open) simp_all
  with a show ?thesis by blast
qed

theorem freelancer_unset_iff_open_or_refunded_witness:
  "init (with_value 1000000 (tx default_account 1000)) ''Build a Landing Page''
     ''Create a responsive landing page with hero section, features grid, and contact form'' 72
     = Inr open_job
   \<and> map (sender \<circ> fst) accept_then_withdraw = [account_1, account_1]
   \<and> account_1 \<noteq> empty_address
   \<and> freelancer (self (call (tx account_1 2000) AcceptJob open_job)) = account_1
   \<and> status (run accept_then_withdraw open_job) = ''open''
   \<and> freelancer (run accept_then_withdraw open_job) = empty_address"
proof -
  have h1: "init (with_value 1000000 (tx default_account 1000)) ''Build a Landing Page''
     ''Create a responsive landing page with hero section, features grid, and contact form'' 72
     = Inr open_job"
    using deploy_escrow_open by (simp add: deploy_escrow_def)
  have h2: "\<forall>c \<in> set accept_then_withdraw. sender (fst c) \<noteq> empty_address"
    by (simp add: accept_then_withdraw_def tx_def account_1_def empty_address_def)
  have h3: "status (run accept_then_withdraw open_job) = ''open''"
    by (simp add: accept_then_withdraw_def method_defs fixture_defs)
  have h4: "freelancer (self (call (tx account_1 2000) AcceptJob open_job)) = account_1"
    by (simp add: method_defs fixture_defs)
  have h5: "map (sender \<circ> fst) accept_then_withdraw = [account_1, account_1]"
    by (simp add: accept_then_withdraw_def tx_def)
  have h6: "account_1 \<noteq> empty_address"
    by (simp add: account_1_def empty_address_def)
  from freelancer_unset_iff_open_or_refunded [OF h1, of accept_then_withdraw] h1 h2 h3 h4 h5 h6
  show ?thesis by simp
qed

end
